theory Spec2Isabelle
  imports Main
begin

section \<open>WebinarJam auto-registration: the \<open>/register\<close> handler\<close>

text \<open>
  A shallow embedding of \<^verbatim>\<open>webinarjam_auto_register.py\<close>. The handler
  \<^verbatim>\<open>register_contact\<close> is a straight line: split the name, build the payload, POST it,
  sleep, log, map the response. Python exceptions are values of a sum type, the three
  effects of the handler (the outbound POST, \<^verbatim>\<open>time.sleep\<close>, \<^verbatim>\<open>print\<close>) are
  recorded in a trace, and the remote end is a function from the request to what
  \<^verbatim>\<open>requests.post\<close> does with it.

  Strings are \<open>string\<close>: a character is a code point below 256.
\<close>

subsection \<open>Python values and exceptions\<close>

text \<open>
  What \<^verbatim>\<open>response.json()\<close> can return. \<open>JNull\<close> is Python's \<^verbatim>\<open>None\<close>; a
  number keeps its literal, since the handler never computes with one; a dict is an
  association list read with \<open>map_of\<close>.
\<close>

datatype json =
    JNull
  | JBool bool
  | JNumber string
  | JString string
  | JArray "json list"
  | JObject "(string \<times> json) list"

text \<open>
  The exceptions that leave the handler. \<open>HTTPException\<close> is the one the framework
  turns into an error response with that status code and detail; the other two are
  Python's own and are not caught anywhere in the file.
\<close>

datatype exn =
    HTTPException int string
  | IndexError
  | AttributeError

text \<open>
  \<^verbatim>\<open>d.get(key, default)\<close>: only a dict has the method, every other value raises
  \<^verbatim>\<open>AttributeError\<close>. \<^verbatim>\<open>d.get(key)\<close> is \<open>py_get d key JNull\<close>.
\<close>

fun py_get :: "json \<Rightarrow> string \<Rightarrow> json \<Rightarrow> exn + json" where
  "py_get (JObject kvs) k dflt = Inr (case map_of kvs k of None \<Rightarrow> dflt | Some v \<Rightarrow> v)"
| "py_get _ k dflt = Inl AttributeError"

text \<open>
  How an f-string renders a value (\<^verbatim>\<open>str(v)\<close>). A string is itself, the three
  constants are their names; the \<^verbatim>\<open>repr\<close> of a number, list or dict is the
  parameter \<open>render\<close>.
\<close>

fun py_str :: "(json \<Rightarrow> string) \<Rightarrow> json \<Rightarrow> string" where
  "py_str render (JString s) = s"
| "py_str render JNull = ''None''"
| "py_str render (JBool b) = (if b then ''True'' else ''False'')"
| "py_str render v = render v"

subsection \<open>\<^verbatim>\<open>str.split()\<close> and \<^verbatim>\<open>" ".join\<close>\<close>

text \<open>\<^verbatim>\<open>str.isspace\<close> on one character, for the code points below 256.\<close>

definition isspace :: "char \<Rightarrow> bool" where
  "isspace c \<longleftrightarrow>
     (let n = (of_char c :: nat)
      in (9 \<le> n \<and> n \<le> 13) \<or> (28 \<le> n \<and> n \<le> 32) \<or> n = 133 \<or> n = 160)"

text \<open>
  \<^verbatim>\<open>s.split()\<close> with no argument: runs of whitespace separate the tokens, and
  no token is empty. \<open>cur\<close> is the token being read, reversed.
\<close>

fun split_from :: "string \<Rightarrow> string \<Rightarrow> string list" where
  "split_from cur [] = (if cur = [] then [] else [rev cur])"
| "split_from cur (c # cs) =
     (if isspace c
      then (if cur = [] then split_from [] cs else rev cur # split_from [] cs)
      else split_from (c # cur) cs)"

definition str_split :: "string \<Rightarrow> string list" where
  "str_split s = split_from [] s"

fun str_join :: "string \<Rightarrow> string list \<Rightarrow> string" where
  "str_join sep [] = []"
| "str_join sep [x] = x"
| "str_join sep (x # y # ys) = x @ sep @ str_join sep (y # ys)"

subsection \<open>The data of a request\<close>

record Contact =
  name :: string
  email :: string
  phone :: string

text \<open>The three values read from the environment at start-up.\<close>

record config =
  WEBINARJAM_API_KEY :: string
  WEBINAR_ID :: string
  WEBINAR_SCHEDULE_ID :: string

definition register_url :: string where
  "register_url = ''https://api.webinarjam.com/webinarjam/register''"

record payload =
  api_key :: string
  webinar_id :: string
  schedule :: string
  first_name :: string
  last_name :: string
  p_email :: string
  p_phone :: string

definition headers :: "(string \<times> string) list" where
  "headers =
     [(''User-Agent'', ''Mozilla/5.0 (Windows NT 10.0; Win64; x64) AppleWebKit/537.36 (KHTML, like Gecko) Chrome/91.0.4472.124 Safari/537.36''),
      (''Content-Type'', ''application/x-www-form-urlencoded'')]"

text \<open>
  A response of the remote API as the handler reads it: the status code, the body text
  (\<^verbatim>\<open>response.text\<close>), and what \<^verbatim>\<open>response.json()\<close> gives (\<open>None\<close> when it raises \<^verbatim>\<open>ValueError\<close>).
\<close>

record response =
  status_code :: int
  resp_text :: string
  resp_json :: "json option"

text \<open>
  \<^verbatim>\<open>requests.post(url, data=payload, headers=headers)\<close>: \<open>Inl msg\<close> is a
  \<^verbatim>\<open>RequestException e\<close> with \<^verbatim>\<open>str(e) = msg\<close>, \<open>Inr\<close> a response.
\<close>

type_synonym remote = "string \<Rightarrow> payload \<Rightarrow> (string \<times> string) list \<Rightarrow> string + response"

datatype event =
    Post string payload "(string \<times> string) list"
  | Sleep nat
  | Print string

text \<open>The dict the handler returns; a field is \<open>JNull\<close> when \<^verbatim>\<open>get\<close> gave \<^verbatim>\<open>None\<close>.\<close>

record success =
  message :: string
  user_id :: json
  live_room_url :: json
  replay_room_url :: json
  thank_you_url :: json

subsection \<open>The handler\<close>

text \<open>Lines 36 to 38: \<^verbatim>\<open>name_parts[0]\<close> raises on an empty list.\<close>

definition split_name :: "string \<Rightarrow> exn + string \<times> string" where
  "split_name nm =
     (let name_parts = str_split nm
      in case name_parts of
           [] \<Rightarrow> Inl IndexError
         | fst_name # _ \<Rightarrow>
             Inr (fst_name,
                  if length name_parts > 1 then str_join '' '' (drop 1 name_parts) else ''''))"

definition make_payload :: "config \<Rightarrow> Contact \<Rightarrow> string \<Rightarrow> string \<Rightarrow> payload" where
  "make_payload cfg contact fst_name lst_name =
     \<lparr> api_key = WEBINARJAM_API_KEY cfg,
       webinar_id = WEBINAR_ID cfg,
       schedule = WEBINAR_SCHEDULE_ID cfg,
       first_name = fst_name,
       last_name = lst_name,
       p_email = email contact,
       p_phone = phone contact \<rparr>"

text \<open>Lines 78 to 85: the body's status was "success".\<close>

definition success_of :: "json \<Rightarrow> exn + success" where
  "success_of response_json =
     (case py_get response_json ''user'' (JObject []) of
        Inl e \<Rightarrow> Inl e
      | Inr user \<Rightarrow>
          (case py_get user ''user_id'' JNull of
             Inl e \<Rightarrow> Inl e
           | Inr uid \<Rightarrow>
          (case py_get user ''live_room_url'' JNull of
             Inl e \<Rightarrow> Inl e
           | Inr live \<Rightarrow>
          (case py_get user ''replay_room_url'' JNull of
             Inl e \<Rightarrow> Inl e
           | Inr replay \<Rightarrow>
          (case py_get user ''thank_you_url'' JNull of
             Inl e \<Rightarrow> Inl e
           | Inr thank \<Rightarrow>
               Inr \<lparr> message = ''Contact successfully registered for the webinar.'',
                     user_id = uid,
                     live_room_url = live,
                     replay_room_url = replay,
                     thank_you_url = thank \<rparr>)))))"

text \<open>Lines 67 to 96: the response is there, the sleep and the print are done.\<close>

definition map_response :: "(json \<Rightarrow> string) \<Rightarrow> response \<Rightarrow> exn + success" where
  "map_response render resp =
     (if status_code resp = 200 then
        (case resp_json resp of
           None \<Rightarrow>
             Inl (HTTPException 500
                    (''WebinarJam API returned an invalid response: '' @ resp_text resp))
         | Some response_json \<Rightarrow>
             (case py_get response_json ''status'' JNull of
                Inl e \<Rightarrow> Inl e
              | Inr st \<Rightarrow>
                  if st = JString ''success'' then success_of response_json
                  else
                    (case py_get response_json ''error'' (JString ''Unknown error'') of
                       Inl e \<Rightarrow> Inl e
                     | Inr err \<Rightarrow>
                         Inl (HTTPException 400
                                (''Failed to register contact. WebinarJam API responded with: ''
                                 @ py_str render err)))))
      else
        Inl (HTTPException (status_code resp)
               (''Failed to register contact. WebinarJam API responded with: '' @ resp_text resp)))"

text \<open>
  \<^verbatim>\<open>register_contact\<close>: the result, and the trace of effects in the order they
  happen. The \<^verbatim>\<open>except\<close> clause catches the transport error only; the sleep and the
  print come after \<^verbatim>\<open>requests.post\<close> inside the \<^verbatim>\<open>try\<close>, so a transport error
  skips both.
\<close>

definition register_contact ::
  "config \<Rightarrow> remote \<Rightarrow> (json \<Rightarrow> string) \<Rightarrow> Contact \<Rightarrow> (exn + success) \<times> event list" where
  "register_contact cfg post render contact =
     (case split_name (name contact) of
        Inl e \<Rightarrow> (Inl e, [])
      | Inr (fst_name, lst_name) \<Rightarrow>
          (let pl = make_payload cfg contact fst_name lst_name
           in case post register_url pl headers of
                Inl e \<Rightarrow>
                  (Inl (HTTPException 500
                          (''An error occurred while communicating with the WebinarJam API: '' @ e)),
                   [Post register_url pl headers])
              | Inr resp \<Rightarrow>
                  (map_response render resp,
                   [Post register_url pl headers,
                    Sleep 2,
                    Print (''Raw response text: '' @ resp_text resp)])))"

subsection \<open>The request binding\<close>

text \<open>
  The body of an inbound \<^verbatim>\<open>POST /register\<close> before validation: a field is \<open>None\<close>
  when the JSON body does not have it.
\<close>

record raw_body =
  raw_name :: "string option"
  raw_email :: "string option"
  raw_phone :: "string option"

datatype rejection = ValidationError

text \<open>
  Modelled from the spec: the validation of the inbound body against the model
  \<^verbatim>\<open>Contact\<close> (lines 25 to 28 declare the three fields; the check itself is the
  framework's and is missing from the source). Section 4.1, step 1: name, email and phone
  are required and the email must be syntactically valid. The syntax check of
  \<^verbatim>\<open>EmailStr\<close> is the parameter \<open>validate_email\<close>: \<open>None\<close> for an invalid address,
  otherwise the address the model keeps.
\<close>

definition validate_Contact :: "(string \<Rightarrow> string option) \<Rightarrow> raw_body \<Rightarrow> rejection + Contact" where
  "validate_Contact validate_email raw =
     (case (raw_name raw, raw_email raw, raw_phone raw) of
        (Some n, Some e, Some p) \<Rightarrow>
          (case validate_email e of
             None \<Rightarrow> Inl ValidationError
           | Some e' \<Rightarrow> Inr \<lparr> name = n, email = e', phone = p \<rparr>)
      | _ \<Rightarrow> Inl ValidationError)"

text \<open>
  Modelled from the spec: the status code of the reply to a rejected body
  (section 4.1, step 1: a \<^verbatim>\<open>ValidationError\<close> maps to HTTP 422).
\<close>

fun rejection_status :: "rejection \<Rightarrow> int" where
  "rejection_status ValidationError = 422"

text \<open>
  The route \<^verbatim>\<open>@app.post("/register")\<close>: the handler runs on a body that passed
  validation, and only then.
\<close>

definition post_register ::
  "(string \<Rightarrow> string option) \<Rightarrow> config \<Rightarrow> remote \<Rightarrow> (json \<Rightarrow> string) \<Rightarrow> raw_body
     \<Rightarrow> (rejection + exn + success) \<times> event list" where
  "post_register validate_email cfg post render raw =
     (case validate_Contact validate_email raw of
        Inl r \<Rightarrow> (Inl r, [])
      | Inr contact \<Rightarrow>
          (case register_contact cfg post render contact of
             (res, trace) \<Rightarrow> (Inr res, trace)))"

subsection \<open>Reading an outcome and a trace\<close>

text \<open>
  A success record is the returned dict, a failure record is an \<open>HTTPException\<close> (a
  status code and a message); any other exception leaves the handler unhandled.
\<close>

fun is_success :: "exn + success \<Rightarrow> bool" where
  "is_success (Inr _) = True"
| "is_success (Inl _) = False"

fun is_failure :: "exn + success \<Rightarrow> bool" where
  "is_failure (Inl (HTTPException _ _)) = True"
| "is_failure _ = False"

fun is_unhandled :: "exn + success \<Rightarrow> bool" where
  "is_unhandled (Inl IndexError) = True"
| "is_unhandled (Inl AttributeError) = True"
| "is_unhandled _ = False"

fun is_post :: "event \<Rightarrow> bool" where
  "is_post (Post _ _ _) = True"
| "is_post _ = False"

definition remote_calls :: "event list \<Rightarrow> nat" where
  "remote_calls trace = length (filter is_post trace)"

fun slept :: "event list \<Rightarrow> nat" where
  "slept [] = 0"
| "slept (Sleep n # evs) = n + slept evs"
| "slept (_ # evs) = slept evs"

text \<open>
  The bodies the mapping reads without an \<^verbatim>\<open>AttributeError\<close>: a dict, and when
  its status is "success", a user that is absent or a dict.
\<close>

fun is_dict :: "json \<Rightarrow> bool" where
  "is_dict (JObject _) = True"
| "is_dict _ = False"

fun readable :: "json \<Rightarrow> bool" where
  "readable (JObject kvs) =
     (if map_of kvs ''status'' = Some (JString ''success'')
      then (case map_of kvs ''user'' of None \<Rightarrow> True | Some u \<Rightarrow> is_dict u)
      else True)"
| "readable _ = False"

subsection \<open>Sample data\<close>

definition sample_config :: config where
  "sample_config =
     \<lparr> WEBINARJAM_API_KEY = ''key'', WEBINAR_ID = ''7'', WEBINAR_SCHEDULE_ID = ''1'' \<rparr>"

definition jane :: Contact where
  "jane = \<lparr> name = ''Jane Doe'', email = ''jane@example.com'', phone = ''555-0100'' \<rparr>"

definition blank :: Contact where
  "blank = \<lparr> name = '' '', email = ''jane@example.com'', phone = ''555-0100'' \<rparr>"

definition replies :: "response \<Rightarrow> remote" where
  "replies resp url pl hs = Inr resp"

definition unreachable :: remote where
  "unreachable url pl hs = Inl ''Connection timed out''"

definition no_render :: "json \<Rightarrow> string" where
  "no_render v = ''?''"

definition has_at :: "string \<Rightarrow> string option" where
  "has_at e = (if CHR ''@'' \<in> set e then Some e else None)"

definition mary :: Contact where
  "mary = \<lparr> name = ''Mary Jane Watson'', email = ''mj@example.com'', phone = ''555-0101'' \<rparr>"

definition service_unavailable :: response where
  "service_unavailable =
     \<lparr> status_code = 503, resp_text = ''Service Unavailable'', resp_json = None \<rparr>"

definition webinar_full :: response where
  "webinar_full =
     \<lparr> status_code = 200,
       resp_text = ''{status: failed, error: Webinar full}'',
       resp_json = Some (JObject [(''status'', JString ''failed''),
                                  (''error'', JString ''Webinar full'')]) \<rparr>"

definition registered :: response where
  "registered =
     \<lparr> status_code = 200,
       resp_text = ''{status: success, user: {...}}'',
       resp_json = Some (JObject [(''status'', JString ''success''),
                                  (''user'', JObject [(''user_id'', JString ''u1''),
                                                      (''live_room_url'', JString ''http://x''),
                                                      (''replay_room_url'', JString ''http://y''),
                                                      (''thank_you_url'', JString ''http://z'')])]) \<rparr>"

definition null_user :: response where
  "null_user =
     \<lparr> status_code = 200,
       resp_text = ''{status: success, user: null}'',
       resp_json = Some (JObject [(''status'', JString ''success''), (''user'', JNull)]) \<rparr>"

definition empty_array :: response where
  "empty_array = \<lparr> status_code = 200, resp_text = ''[]'', resp_json = Some (JArray []) \<rparr>"

definition blank_body :: raw_body where
  "blank_body =
     \<lparr> raw_name = Some '' '', raw_email = Some ''jane@example.com'',
       raw_phone = Some ''555-0100'' \<rparr>"

definition bad_email_body :: raw_body where
  "bad_email_body =
     \<lparr> raw_name = Some ''Jane Doe'', raw_email = Some ''not-an-email'',
       raw_phone = Some ''555-0100'' \<rparr>"

section \<open>Properties\<close>

subsection \<open>What \<open>str_split\<close> computes\<close>

text \<open>
  The list of tokens is empty exactly for a name made of whitespace only, the empty name
  included.
\<close>

lemma split_from_Nil_iff:
  "split_from cur s = [] \<longleftrightarrow> cur = [] \<and> (\<forall>c\<in>set s. isspace c)"
  by (induction s arbitrary: cur) auto

lemma str_split_Nil_iff: "str_split s = [] \<longleftrightarrow> (\<forall>c\<in>set s. isspace c)"
  by (simp add: str_split_def split_from_Nil_iff)

text \<open>
  Three equations that fix \<open>str_split\<close> on every string: leading whitespace is dropped,
  a token ends at the first whitespace character after it, and a string without
  whitespace is one token.
\<close>

lemma split_from_token:
  "\<forall>c\<in>set t. \<not> isspace c \<Longrightarrow> split_from cur (t @ s) = split_from (rev t @ cur) s"
  by (induction t arbitrary: cur) auto

lemma str_split_space: "isspace w \<Longrightarrow> str_split (w # s) = str_split s"
  by (simp add: str_split_def)

lemma str_split_token_space:
  assumes "t \<noteq> []" and "\<forall>c\<in>set t. \<not> isspace c" and "isspace w"
  shows "str_split (t @ w # s) = t # str_split s"
  using assms by (simp add: str_split_def split_from_token)

lemma str_split_token:
  assumes "t \<noteq> []" and "\<forall>c\<in>set t. \<not> isspace c"
  shows "str_split t = [t]"
  using assms split_from_token [of t "[]" "[]"] by (simp add: str_split_def)

text \<open>No token is empty and none holds a whitespace character.\<close>

lemma split_from_tokens:
  "\<forall>c\<in>set cur. \<not> isspace c \<Longrightarrow>
   \<forall>t\<in>set (split_from cur s). t \<noteq> [] \<and> (\<forall>c\<in>set t. \<not> isspace c)"
proof (induction s arbitrary: cur)
  case Nil
  then show ?case by simp
next
  case (Cons a s)
  show ?case
  proof (cases "isspace a")
    case True
    with Cons.prems Cons.IH [of "[]"] show ?thesis by simp
  next
    case False
    with Cons.prems Cons.IH [of "a # cur"] show ?thesis by simp
  qed
qed

lemma str_split_tokens:
  "t \<in> set (str_split s) \<Longrightarrow> t \<noteq> [] \<and> (\<forall>c\<in>set t. \<not> isspace c)"
  using split_from_tokens [of "[]" s] by (simp add: str_split_def)

lemma isspace_blank: "isspace CHR '' ''"
  by (simp add: isspace_def)

text \<open>Splitting undoes joining with single spaces.\<close>

lemma str_split_join:
  "\<forall>t\<in>set ts. t \<noteq> [] \<and> (\<forall>c\<in>set t. \<not> isspace c) \<Longrightarrow> str_split (str_join '' '' ts) = ts"
proof (induction ts)
  case Nil
  show ?case by (simp add: str_split_def)
next
  case (Cons x ts)
  show ?case
  proof (cases ts)
    case Nil
    with Cons.prems show ?thesis by (simp add: str_split_token)
  next
    case (Cons y ys)
    have "str_join '' '' (x # ts) = x @ CHR '' '' # str_join '' '' ts"
      using Cons by simp
    moreover have "str_split (str_join '' '' ts) = ts"
      using Cons.IH Cons.prems by simp
    ultimately show ?thesis
      using Cons.prems by (simp add: str_split_token_space isspace_blank)
  qed
qed

subsection \<open>The two ways through the \<^verbatim>\<open>try\<close> block\<close>

lemma split_name_blank: "str_split nm = [] \<Longrightarrow> split_name nm = Inl IndexError"
  by (simp add: split_name_def)

lemma register_contact_response:
  assumes "split_name (name contact) = Inr (f, l)"
    and "post register_url (make_payload cfg contact f l) headers = Inr resp"
  shows "register_contact cfg post render contact =
           (map_response render resp,
            [Post register_url (make_payload cfg contact f l) headers, Sleep 2,
             Print (''Raw response text: '' @ resp_text resp)])"
  using assms by (simp add: register_contact_def)

lemma register_contact_transport:
  assumes "split_name (name contact) = Inr (f, l)"
    and "post register_url (make_payload cfg contact f l) headers = Inl e"
  shows "register_contact cfg post render contact =
           (Inl (HTTPException 500
                   (''An error occurred while communicating with the WebinarJam API: '' @ e)),
            [Post register_url (make_payload cfg contact f l) headers])"
  using assms by (simp add: register_contact_def)

lemma split_name_jane: "split_name (name jane) = Inr (''Jane'', ''Doe'')"
  by (simp add: jane_def split_name_def str_split_def isspace_def)

lemma split_name_Madonna: "split_name ''Madonna'' = Inr (''Madonna'', '''')"
  by (simp add: split_name_def str_split_def isspace_def)

lemma str_split_mary: "str_split (name mary) = [''Mary'', ''Jane'', ''Watson'']"
  by (simp add: mary_def str_split_def isspace_def)

lemma split_name_blank_contact: "split_name (name blank) = Inl IndexError"
  by (simp add: blank_def split_name_def str_split_def isspace_def)

subsection \<open>Which outcomes are records\<close>

text \<open>An outcome is of exactly one of the three kinds.\<close>

lemma outcome_kinds:
  "(is_success r \<and> \<not> is_failure r \<and> \<not> is_unhandled r) \<or>
   (\<not> is_success r \<and> is_failure r \<and> \<not> is_unhandled r) \<or>
   (\<not> is_success r \<and> \<not> is_failure r \<and> is_unhandled r)"
proof (cases r)
  case (Inl e)
  then show ?thesis by (cases e) simp_all
next
  case (Inr s)
  then show ?thesis by simp
qed

text \<open>
  Lines 78 to 85 on a dict: the four fields come from the user dict, \<open>JNull\<close> for a
  missing one, all four \<open>JNull\<close> when the body has no user; a user that is not a dict
  raises \<^verbatim>\<open>AttributeError\<close>.
\<close>

lemma success_of_dict:
  "success_of (JObject kvs) =
     (case map_of kvs ''user'' of
        None \<Rightarrow> Inr \<lparr> message = ''Contact successfully registered for the webinar.'',
                     user_id = JNull, live_room_url = JNull, replay_room_url = JNull,
                     thank_you_url = JNull \<rparr>
      | Some (JObject u) \<Rightarrow>
          Inr \<lparr> message = ''Contact successfully registered for the webinar.'',
                user_id = (case map_of u ''user_id'' of None \<Rightarrow> JNull | Some v \<Rightarrow> v),
                live_room_url = (case map_of u ''live_room_url'' of None \<Rightarrow> JNull | Some v \<Rightarrow> v),
                replay_room_url = (case map_of u ''replay_room_url'' of None \<Rightarrow> JNull | Some v \<Rightarrow> v),
                thank_you_url = (case map_of u ''thank_you_url'' of None \<Rightarrow> JNull | Some v \<Rightarrow> v) \<rparr>
      | Some _ \<Rightarrow> Inl AttributeError)"
  by (simp add: success_of_def split: option.split json.split)

text \<open>
  The mapping lets an exception other than \<open>HTTPException\<close> out exactly when the
  status is 200 and the parsed body is not \<open>readable\<close>.
\<close>

lemma map_response_unhandled_iff:
  "is_unhandled (map_response render resp) \<longleftrightarrow>
     status_code resp = 200 \<and> (\<exists>b. resp_json resp = Some b \<and> \<not> readable b)"
proof (cases "status_code resp = 200")
  case False
  then show ?thesis by (simp add: map_response_def)
next
  case True
  show ?thesis
  proof (cases "resp_json resp")
    case None
    with True show ?thesis by (simp add: map_response_def)
  next
    case (Some b)
    show ?thesis
    proof (cases b)
      case (JObject kvs)
      with True Some show ?thesis
        by (simp add: map_response_def success_of_dict split: option.split json.split)
    qed (use True Some in \<open>simp_all add: map_response_def\<close>)
  qed
qed

text \<open>
  With a name that has a token and a remote end whose 200 bodies are \<open>readable\<close>, the
  handler gives one record: a success or a failure, not both, and nothing unhandled.
\<close>

lemma one_record:
  assumes "split_name (name contact) = Inr (f, l)"
    and "\<And>resp b. post register_url (make_payload cfg contact f l) headers = Inr resp \<Longrightarrow>
           status_code resp = 200 \<Longrightarrow> resp_json resp = Some b \<Longrightarrow> readable b"
  shows "is_success (fst (register_contact cfg post render contact)) \<noteq>
         is_failure (fst (register_contact cfg post render contact)) \<and>
         \<not> is_unhandled (fst (register_contact cfg post render contact))"
proof (cases "post register_url (make_payload cfg contact f l) headers")
  case (Inl e)
  with assms(1) show ?thesis by (simp add: register_contact_transport)
next
  case (Inr resp)
  have "\<not> is_unhandled (map_response render resp)"
    using assms(2) [OF Inr] by (auto simp: map_response_unhandled_iff)
  with outcome_kinds [of "map_response render resp"] assms(1) Inr show ?thesis
    by (auto simp: register_contact_response)
qed

text \<open>
  The body of a 200 response is a dict with status "success" and a user that is absent
  or a dict: the handler returns the success dict with the four fields of the user.
\<close>

lemma registration_success:
  assumes "split_name (name contact) = Inr (f, l)"
    and "post register_url (make_payload cfg contact f l) headers = Inr resp"
    and "status_code resp = 200"
    and "resp_json resp = Some (JObject kvs)"
    and "map_of kvs ''status'' = Some (JString ''success'')"
    and "map_of kvs ''user'' = None \<and> u = [] \<or> map_of kvs ''user'' = Some (JObject u)"
  shows "fst (register_contact cfg post render contact) =
           Inr \<lparr> message = ''Contact successfully registered for the webinar.'',
                 user_id = (case map_of u ''user_id'' of None \<Rightarrow> JNull | Some v \<Rightarrow> v),
                 live_room_url = (case map_of u ''live_room_url'' of None \<Rightarrow> JNull | Some v \<Rightarrow> v),
                 replay_room_url = (case map_of u ''replay_room_url'' of None \<Rightarrow> JNull | Some v \<Rightarrow> v),
                 thank_you_url = (case map_of u ''thank_you_url'' of None \<Rightarrow> JNull | Some v \<Rightarrow> v) \<rparr>"
  using assms by (auto simp: register_contact_response map_response_def success_of_dict)

lemma registered_jane:
  "fst (register_contact sample_config (replies registered) no_render jane) =
     Inr \<lparr> message = ''Contact successfully registered for the webinar.'',
           user_id = JString ''u1'', live_room_url = JString ''http://x'',
           replay_room_url = JString ''http://y'', thank_you_url = JString ''http://z'' \<rparr>"
  by (simp add: register_contact_def split_name_jane replies_def registered_def map_response_def
      success_of_def)

subsection \<open>Name splitting\<close>

text \<open>
  C4. The name is split on whitespace; the first token is the first name and the
  remaining tokens, joined with single spaces, are the last name, which is the
  empty string when there is one token only. These are the two values the handler
  sends as \<open>first_name\<close> and \<open>last_name\<close> in the outbound request. The claim is about
  a name that has a first token.
\<close>

theorem name_splitting:
  assumes "str_split (name contact) = t # ts"
  shows "split_name (name contact) = Inr (t, if ts = [] then '''' else str_join '' '' ts) \<and>
         (\<exists>pl rest. snd (register_contact cfg post render contact) = Post register_url pl headers # rest \<and>
            first_name pl = t \<and> last_name pl = str_join '' '' ts)"
proof -
  have sn: "split_name (name contact) = Inr (t, str_join '' '' ts)"
    using assms by (cases ts) (simp_all add: split_name_def)
  let ?pl = "make_payload cfg contact t (str_join '' '' ts)"
  have "\<exists>rest. snd (register_contact cfg post render contact) = Post register_url ?pl headers # rest"
    using sn by (cases "post register_url ?pl headers") (simp_all add: register_contact_def)
  moreover have "first_name ?pl = t \<and> last_name ?pl = str_join '' '' ts"
    by (simp add: make_payload_def)
  ultimately show ?thesis using sn by (cases ts) auto
qed

theorem name_splitting_witness:
  "str_split (name mary) = [''Mary'', ''Jane'', ''Watson''] \<and>
   split_name (name mary) = Inr (''Mary'', ''Jane Watson'')"
  using name_splitting [where contact = mary and t = "''Mary''" and ts = "[''Jane'', ''Watson'']"
      and cfg = sample_config and post = unreachable and render = no_render]
  by (simp add: str_split_mary)

subsection \<open>Response mapping\<close>

text \<open>
  C6. The remote API answers 200 with a body that parses to an object whose status
  field is not "success" (another value, or no such field): the handler raises
  \<open>HTTPException\<close> with status 400, and the message ends with the body's error field
  as an f-string renders it, or with "Unknown error" when the body has no error field.
\<close>

theorem remote_business_error:
  assumes "split_name (name contact) = Inr (f, l)"
    and "post register_url (make_payload cfg contact f l) headers = Inr resp"
    and "status_code resp = 200"
    and "resp_json resp = Some (JObject kvs)"
    and "map_of kvs ''status'' \<noteq> Some (JString ''success'')"
  shows "fst (register_contact cfg post render contact) =
           Inl (HTTPException 400
                  (''Failed to register contact. WebinarJam API responded with: '' @
                   (case map_of kvs ''error'' of
                      None \<Rightarrow> ''Unknown error''
                    | Some err \<Rightarrow> py_str render err)))"
proof -
  have "py_get (JObject kvs) ''status'' JNull \<noteq> Inr (JString ''success'')"
    using assms(5) by (cases "map_of kvs ''status''") simp_all
  then show ?thesis
    using assms(1-4)
    by (cases "map_of kvs ''status''"; cases "map_of kvs ''error''")
       (simp_all add: register_contact_response map_response_def)
qed

theorem remote_business_error_witness:
  "split_name (name jane) = Inr (''Jane'', ''Doe'') \<and>
   status_code webinar_full = 200 \<and>
   fst (register_contact sample_config (replies webinar_full) no_render jane) =
     Inl (HTTPException 400
            ''Failed to register contact. WebinarJam API responded with: Webinar full'')"
  using remote_business_error [where contact = jane and f = "''Jane''" and l = "''Doe''"
      and post = "replies webinar_full" and cfg = sample_config and resp = webinar_full
      and render = no_render
      and kvs = "[(''status'', JString ''failed''), (''error'', JString ''Webinar full'')]"]
  by (simp add: split_name_jane replies_def webinar_full_def)

text \<open>
  C7. The remote API answers with a status other than 200: the handler raises
  \<open>HTTPException\<close> with the remote status code, and the message ends with the raw
  body text.
\<close>

theorem remote_http_error:
  assumes "split_name (name contact) = Inr (f, l)"
    and "post register_url (make_payload cfg contact f l) headers = Inr resp"
    and "status_code resp \<noteq> 200"
  shows "fst (register_contact cfg post render contact) =
           Inl (HTTPException (status_code resp)
                  (''Failed to register contact. WebinarJam API responded with: '' @ resp_text resp))"
  using assms by (simp add: register_contact_response map_response_def)

theorem remote_http_error_witness:
  "split_name (name jane) = Inr (''Jane'', ''Doe'') \<and>
   status_code service_unavailable \<noteq> 200 \<and>
   fst (register_contact sample_config (replies service_unavailable) no_render jane) =
     Inl (HTTPException 503
            ''Failed to register contact. WebinarJam API responded with: Service Unavailable'')"
  using remote_http_error [where contact = jane and f = "''Jane''" and l = "''Doe''"
      and post = "replies service_unavailable" and cfg = sample_config
      and resp = service_unavailable and render = no_render]
  by (simp add: split_name_jane replies_def service_unavailable_def)

text \<open>
  C8. The outbound call fails at the transport level (\<^verbatim>\<open>requests.post\<close> raises a
  \<^verbatim>\<open>RequestException\<close>): the handler raises \<open>HTTPException\<close> with status 500, and the
  message ends with the text of the transport error.
\<close>

theorem transport_failure:
  assumes "split_name (name contact) = Inr (f, l)"
    and "post register_url (make_payload cfg contact f l) headers = Inl e"
  shows "fst (register_contact cfg post render contact) =
           Inl (HTTPException 500
                  (''An error occurred while communicating with the WebinarJam API: '' @ e))"
  using assms by (simp add: register_contact_transport)

theorem transport_failure_witness:
  "split_name (name jane) = Inr (''Jane'', ''Doe'') \<and>
   fst (register_contact sample_config unreachable no_render jane) =
     Inl (HTTPException 500
            ''An error occurred while communicating with the WebinarJam API: Connection timed out'')"
  using transport_failure [where contact = jane and f = "''Jane''" and l = "''Doe''"
      and post = unreachable and cfg = sample_config and e = "''Connection timed out''"
      and render = no_render]
  by (simp add: split_name_jane unreachable_def)

text \<open>
  C5. The remote API answers 200 with a body that parses to a dict whose status is
  "success": the claim promises a success outcome with the four fields of the nested
  user, each null when missing. The handler reads the user with \<^verbatim>\<open>get("user", {})\<close>
  and then calls \<^verbatim>\<open>user.get\<close>: a body that carries \<^verbatim>\<open>"user": null\<close> has status
  "success" and makes the handler raise \<^verbatim>\<open>AttributeError\<close>, which nothing catches.
  (\<open>registration_success\<close> is the claim for a user that is absent or a dict.)
\<close>

theorem null_user_attribute_error:
  "status_code null_user = 200 \<and>
   resp_json null_user = Some (JObject [(''status'', JString ''success''), (''user'', JNull)]) \<and>
   fst (register_contact sample_config (replies null_user) no_render jane) = Inl AttributeError"
  by (simp add: register_contact_def split_name_jane replies_def null_user_def map_response_def
      success_of_def)

subsection \<open>The pause after the remote call\<close>

text \<open>
  C2, as the code has it. For a request whose name has a token, the handler pauses for
  2 seconds exactly once, right after the remote call returned a response and before
  the response is logged and mapped, whatever the status and the outcome; when the
  remote call fails at the transport level the handler returns without a pause.
\<close>

theorem post_call_delay:
  assumes "split_name (name contact) = Inr (f, l)"
  shows "snd (register_contact cfg post render contact) =
           Post register_url (make_payload cfg contact f l) headers #
           (case post register_url (make_payload cfg contact f l) headers of
              Inl e \<Rightarrow> []
            | Inr resp \<Rightarrow> [Sleep 2, Print (''Raw response text: '' @ resp_text resp)]) \<and>
         slept (snd (register_contact cfg post render contact)) =
           (case post register_url (make_payload cfg contact f l) headers of
              Inl e \<Rightarrow> 0
            | Inr resp \<Rightarrow> 2)"
  using assms
  by (cases "post register_url (make_payload cfg contact f l) headers")
     (simp_all add: register_contact_def)

theorem post_call_delay_witness:
  "split_name (name jane) = Inr (''Jane'', ''Doe'') \<and>
   snd (register_contact sample_config (replies service_unavailable) no_render jane) =
     [Post register_url (make_payload sample_config jane ''Jane'' ''Doe'') headers,
      Sleep 2, Print ''Raw response text: Service Unavailable''] \<and>
   slept (snd (register_contact sample_config (replies service_unavailable) no_render jane)) = 2"
  using post_call_delay [where contact = jane and f = "''Jane''" and l = "''Doe''"
      and cfg = sample_config and post = "replies service_unavailable" and render = no_render]
  by (simp add: split_name_jane replies_def service_unavailable_def)

text \<open>
  C2 as the claim states it fails: a valid contact, a remote call that ends in a
  transport failure, a failure outcome, and no pause at all.
\<close>

theorem no_delay_on_transport_failure:
  "register_contact sample_config unreachable no_render jane =
     (Inl (HTTPException 500
             ''An error occurred while communicating with the WebinarJam API: Connection timed out''),
      [Post register_url (make_payload sample_config jane ''Jane'' ''Doe'') headers]) \<and>
   slept (snd (register_contact sample_config unreachable no_render jane)) = 0"
  by (simp add: register_contact_def split_name_jane unreachable_def)

subsection \<open>Validation of the inbound body\<close>

text \<open>
  C3. An inbound body in which name, email or phone is missing, or whose email is not
  syntactically valid, is rejected with a \<open>ValidationError\<close>, which maps to HTTP 422,
  and the trace holds no outbound POST.
\<close>

theorem invalid_body_rejected:
  assumes "raw_name raw = None \<or> raw_email raw = None \<or> raw_phone raw = None \<or>
           (\<exists>e. raw_email raw = Some e \<and> validate_email e = None)"
  shows "post_register validate_email cfg post render raw = (Inl ValidationError, []) \<and>
         rejection_status ValidationError = 422 \<and>
         remote_calls (snd (post_register validate_email cfg post render raw)) = 0"
  using assms
  by (auto simp: post_register_def validate_Contact_def remote_calls_def split: option.split)

theorem invalid_body_rejected_witness:
  "raw_email bad_email_body = Some ''not-an-email'' \<and> has_at ''not-an-email'' = None \<and>
   post_register has_at sample_config (replies registered) no_render bad_email_body =
     (Inl ValidationError, []) \<and>
   remote_calls (snd (post_register has_at sample_config (replies registered) no_render
                        bad_email_body)) = 0"
proof -
  have h: "raw_email bad_email_body = Some ''not-an-email'' \<and> has_at ''not-an-email'' = None"
    by (simp add: bad_email_body_def has_at_def)
  then have "raw_name bad_email_body = None \<or> raw_email bad_email_body = None \<or>
      raw_phone bad_email_body = None \<or>
      (\<exists>e. raw_email bad_email_body = Some e \<and> has_at e = None)"
    by blast
  from invalid_body_rejected [OF this, of sample_config "replies registered" no_render] h
  show ?thesis by (simp add: remote_calls_def)
qed

subsection \<open>A name without a token\<close>

text \<open>
  C10. A body whose name is empty or whitespace only, with a valid email and a phone,
  passes validation (the name is a plain \<^verbatim>\<open>str\<close>); the handler then raises
  \<^verbatim>\<open>IndexError\<close> at \<^verbatim>\<open>name_parts[0]\<close>, before any outbound call: the outcome is
  not a success record, not an \<open>HTTPException\<close> and not a rejection.
\<close>

theorem blank_name_index_error:
  assumes "\<forall>c\<in>set nm. isspace c" and "validate_email e = Some e'"
  shows "validate_Contact validate_email \<lparr> raw_name = Some nm, raw_email = Some e, raw_phone = Some p \<rparr> =
           Inr \<lparr> name = nm, email = e', phone = p \<rparr> \<and>
         register_contact cfg post render \<lparr> name = nm, email = e', phone = p \<rparr> = (Inl IndexError, []) \<and>
         post_register validate_email cfg post render
           \<lparr> raw_name = Some nm, raw_email = Some e, raw_phone = Some p \<rparr> = (Inr (Inl IndexError), []) \<and>
         \<not> is_success (Inl IndexError) \<and> \<not> is_failure (Inl IndexError) \<and>
         remote_calls [] = 0"
proof -
  have "split_name nm = Inl IndexError"
    using assms(1) by (simp add: split_name_blank str_split_Nil_iff)
  then show ?thesis
    using assms(2)
    by (simp add: post_register_def validate_Contact_def register_contact_def remote_calls_def)
qed

theorem blank_name_index_error_witness:
  "isspace CHR '' '' \<and> has_at ''jane@example.com'' = Some ''jane@example.com'' \<and>
   post_register has_at sample_config (replies registered) no_render blank_body =
     (Inr (Inl IndexError), [])"
  using blank_name_index_error [where nm = "'' ''" and validate_email = has_at
      and e = "''jane@example.com''" and e' = "''jane@example.com''" and p = "''555-0100''"
      and cfg = sample_config and post = "replies registered" and render = no_render]
  by (simp add: blank_body_def has_at_def isspace_def)

subsection \<open>Exactly one record\<close>

text \<open>
  C1. The claim promises, for every contact that passes validation, one success record
  or one failure record and no unhandled exception. The handler breaks it on two paths
  that no \<^verbatim>\<open>except\<close> clause covers: a name of one blank is not empty and gives
  \<^verbatim>\<open>IndexError\<close> before the call, and a 200 response whose body parses to a value
  that is not a dict gives \<^verbatim>\<open>AttributeError\<close> after it. Neither outcome is a success
  or a failure record. (\<open>one_record\<close> is the claim on the remaining inputs.)
\<close>

theorem unhandled_exceptions_escape:
  "name blank \<noteq> [] \<and>
   register_contact sample_config (replies registered) no_render blank = (Inl IndexError, []) \<and>
   \<not> is_success (Inl IndexError) \<and> \<not> is_failure (Inl IndexError) \<and>
   fst (register_contact sample_config (replies empty_array) no_render jane) = Inl AttributeError \<and>
   \<not> is_success (Inl AttributeError) \<and> \<not> is_failure (Inl AttributeError)"
proof -
  have "name blank \<noteq> []"
    by (simp add: blank_def)
  moreover have "register_contact sample_config (replies registered) no_render blank =
      (Inl IndexError, [])"
    by (simp add: register_contact_def split_name_blank_contact)
  moreover have "fst (register_contact sample_config (replies empty_array) no_render jane) =
      Inl AttributeError"
    by (simp add: register_contact_def split_name_jane replies_def empty_array_def
        map_response_def)
  ultimately show ?thesis by simp
qed

end
